theory Spec2Isabelle
  imports Complex_Main
begin

section \<open>Python numbers and exceptions\<close>

text \<open>
  The program computes with Python floats (IEEE binary64). A float is modelled by the
  real number it stands for; rounding of the mantissa is outside the model. What is
  kept is Python's control flow, that is, every way an arithmetic operation of the
  program can raise:
  \<^item> a division whose divisor is the float zero raises \<open>ZeroDivisionError\<close>; every
    division by a value that is not a non-zero literal goes through \<open>py_div\<close>;
  \<^item> a product of non-zero floats is the float zero when it underflows, so a product
    that is used as a divisor goes through \<open>py_mul\<close>;
  \<^item> \<open>x ** n\<close> raises \<open>OverflowError\<close> when \<open>x\<close> is finite and the power overflows.

  The other operations of the program (\<open>+\<close>, \<open>-\<close>, \<open>*\<close>, \<open>/\<close> by a non-zero float,
  comparisons, \<open>max\<close>, \<open>min\<close>) never raise: on overflow they yield an infinity or a NaN
  and the program goes on. A real of magnitude \<open>DBL_OVERFLOW\<close> or more stands for such an
  infinite float; the values computed from it are outside the model, the control flow is
  not.
\<close>

datatype py_error = ZeroDivisionError | OverflowError

text \<open>
  The range of binary64 under rounding to nearest: a magnitude of at least
  \<open>2^1024 - 2^970\<close> rounds to an infinity, a magnitude of at most \<open>2^-1075\<close> rounds to
  zero.
\<close>

definition DBL_OVERFLOW :: real where
  "DBL_OVERFLOW = 2 ^ 1024 - 2 ^ 970"

definition DBL_UNDERFLOW :: real where
  "DBL_UNDERFLOW = 1 / 2 ^ 1075"

text \<open>\<open>x * y\<close> where the result is tested against zero: an underflowing product is zero.\<close>

definition py_mul :: "real \<Rightarrow> real \<Rightarrow> real" where
  "py_mul x y = (if \<bar>x * y\<bar> \<le> DBL_UNDERFLOW then 0 else x * y)"

definition py_div :: "real \<Rightarrow> real \<Rightarrow> py_error + real" where
  "py_div a b = (if b = 0 then Inl ZeroDivisionError else Inr (a / b))"

text \<open>
  \<open>x ** n\<close> for a float \<open>x\<close> and a non-negative integer literal \<open>n\<close>: \<open>OverflowError\<close> when
  the power of a finite \<open>x\<close> leaves the float range (an infinite \<open>x\<close> gives an infinity
  and no exception).
\<close>

definition py_pow_int :: "real \<Rightarrow> nat \<Rightarrow> py_error + real" where
  "py_pow_int x n =
     (if \<bar>x\<bar> < DBL_OVERFLOW \<and> DBL_OVERFLOW \<le> \<bar>x ^ n\<bar> then Inl OverflowError
      else Inr (x ^ n))"

text \<open>
  \<open>x ** y\<close> for a float exponent. Every call site of the program has a base in
  \<open>(0, 2.718]\<close> (the literal \<open>2.718\<close> under a non-positive exponent, or a temperature
  ratio that lemma \<open>troposphere_base_pos\<close> shows positive and that is at most 1), where
  Python's result is the real power and nothing is raised (an underflowing power is
  zero, not an error).
\<close>

definition py_pow :: "real \<Rightarrow> real \<Rightarrow> real" where
  "py_pow x y = x powr y"

text \<open>\<open>math.radians\<close>.\<close>

definition radians :: "real \<Rightarrow> real" where
  "radians d = d * pi / 180"

section \<open>constants.py\<close>

definition GRAVITY :: real where "GRAVITY = 9.81"
definition RHO_SEA_LEVEL :: real where "RHO_SEA_LEVEL = 1.225"
definition TEMP_SEA_LEVEL :: real where "TEMP_SEA_LEVEL = 288.15"
definition LAPSE_RATE :: real where "LAPSE_RATE = 0.0065"
definition GAS_CONSTANT :: real where "GAS_CONSTANT = 287.05"
definition PRESSURE_SEA_LEVEL :: real where "PRESSURE_SEA_LEVEL = 101325"

lemmas constants_defs =
  GRAVITY_def RHO_SEA_LEVEL_def TEMP_SEA_LEVEL_def LAPSE_RATE_def GAS_CONSTANT_def
  PRESSURE_SEA_LEVEL_def

section \<open>atmosphere.py\<close>

definition air_density :: "real \<Rightarrow> real" where
  "air_density altitude_m =
     (if altitude_m \<le> 0 then RHO_SEA_LEVEL
      else if altitude_m > 11000 then
        (let T_11 = TEMP_SEA_LEVEL - LAPSE_RATE * 11000;
             rho_11 = RHO_SEA_LEVEL * py_pow (T_11 / TEMP_SEA_LEVEL)
                        ((GRAVITY * 0.0289644) / (GAS_CONSTANT * LAPSE_RATE) - 1)
         in rho_11 * py_pow 2.718 (- 0.000157 * (altitude_m - 11000)))
      else
        (let T = TEMP_SEA_LEVEL - LAPSE_RATE * altitude_m
         in RHO_SEA_LEVEL * py_pow (T / TEMP_SEA_LEVEL)
              ((GRAVITY * 0.0289644) / (GAS_CONSTANT * LAPSE_RATE) - 1)))"

text \<open>
  Which \<open>return\<close> of \<open>air_density\<close> is taken: the guards of its two \<open>if\<close> statements,
  in the source's order.
\<close>

datatype density_branch = Sea_level | Stratosphere | Troposphere

definition air_density_branch :: "real \<Rightarrow> density_branch" where
  "air_density_branch altitude_m =
     (if altitude_m \<le> 0 then Sea_level
      else if altitude_m > 11000 then Stratosphere
      else Troposphere)"

definition pressure :: "real \<Rightarrow> real" where
  "pressure altitude_m =
     (if altitude_m \<le> 0 then PRESSURE_SEA_LEVEL
      else
        (let T = TEMP_SEA_LEVEL - LAPSE_RATE * min altitude_m 11000
         in PRESSURE_SEA_LEVEL * py_pow (T / TEMP_SEA_LEVEL)
              (- GRAVITY / (GAS_CONSTANT * LAPSE_RATE))))"

section \<open>aircraft_params.py\<close>

record AircraftParams =
  mass_kg :: real
  wing_area_m2 :: real
  aspect_ratio :: real
  cl_alpha :: real
  cd0 :: real
  oswald_efficiency :: real
  max_thrust_N :: real
  thrust_ratio :: real
  altitude_m :: real
  airspeed_m_s :: real
  angle_of_attack_deg :: real

text \<open>The dataclass defaults.\<close>

definition default_params :: AircraftParams where
  "default_params =
     \<lparr>mass_kg = 1000, wing_area_m2 = 20, aspect_ratio = 8, cl_alpha = 5.5, cd0 = 0.025,
      oswald_efficiency = 0.82, max_thrust_N = 5000, thrust_ratio = 1, altitude_m = 0,
      airspeed_m_s = 50, angle_of_attack_deg = 3\<rparr>"

section \<open>forces.py\<close>

definition lift_coefficient :: "real \<Rightarrow> real \<Rightarrow> real" where
  "lift_coefficient angle_of_attack_rad cl_alpha' = cl_alpha' * angle_of_attack_rad"

text \<open>
  \<open>drag_coefficient\<close>. In \<open>(cl ** 2) / (math.pi * oswald_efficiency * aspect_ratio)\<close> the
  power is evaluated first, then the divisor, left to right, then the quotient.
\<close>

definition drag_coefficient :: "real \<Rightarrow> real \<Rightarrow> real \<Rightarrow> real \<Rightarrow> py_error + real" where
  "drag_coefficient cl cd0' aspect_ratio' oswald_efficiency' =
     (if aspect_ratio' \<le> 0 \<or> oswald_efficiency' \<le> 0 then Inr cd0'
      else
        (case py_pow_int cl 2 of
           Inl err \<Rightarrow> Inl err
         | Inr cl2 \<Rightarrow>
             (case py_div cl2 (py_mul (py_mul pi oswald_efficiency') aspect_ratio') of
                Inl err \<Rightarrow> Inl err
              | Inr induced \<Rightarrow> Inr (cd0' + induced))))"

definition dynamic_pressure :: "real \<Rightarrow> real \<Rightarrow> real" where
  "dynamic_pressure rho velocity = 0.5 * rho * velocity * velocity"

definition compute_lift :: "AircraftParams \<Rightarrow> real" where
  "compute_lift params =
     (let rho = air_density (altitude_m params);
          alpha_rad = radians (angle_of_attack_deg params);
          cl = lift_coefficient alpha_rad (cl_alpha params);
          q = dynamic_pressure rho (airspeed_m_s params)
      in q * wing_area_m2 params * cl)"

definition compute_drag :: "AircraftParams \<Rightarrow> py_error + real" where
  "compute_drag params =
     (let rho = air_density (altitude_m params);
          alpha_rad = radians (angle_of_attack_deg params);
          cl = lift_coefficient alpha_rad (cl_alpha params)
      in case drag_coefficient cl (cd0 params) (aspect_ratio params)
                (oswald_efficiency params) of
           Inl err \<Rightarrow> Inl err
         | Inr cd \<Rightarrow>
             (let q = dynamic_pressure rho (airspeed_m_s params)
              in Inr (q * wing_area_m2 params * cd)))"

definition compute_thrust :: "AircraftParams \<Rightarrow> real" where
  "compute_thrust params = max_thrust_N params * max 0 (min 1 (thrust_ratio params))"

definition compute_weight :: "AircraftParams \<Rightarrow> real" where
  "compute_weight params = mass_kg params * GRAVITY"

definition compute_thrust_required :: "AircraftParams \<Rightarrow> py_error + real" where
  "compute_thrust_required params = compute_drag params"

section \<open>simulation.py\<close>

record SimulationState =
  altitude_m :: real
  airspeed_m_s :: real
  angle_of_attack_deg :: real
  time_s :: real
  lift_N :: real
  drag_N :: real
  thrust_N :: real
  weight_N :: real
  acceleration_m_s2 :: real

text \<open>
  An \<open>AerodynamicsSimulator\<close> object. Its \<open>params\<close> attribute is the caller's parameter
  object itself (the constructor stores the reference), so the field \<open>params\<close> below is
  also what the caller reads after a call.
\<close>

record AerodynamicsSimulator =
  params :: AircraftParams
  dt_s :: real
  state :: SimulationState

text \<open>\<open>AerodynamicsSimulator.__init__\<close>.\<close>

definition init :: "AircraftParams \<Rightarrow> real \<Rightarrow> AerodynamicsSimulator" where
  "init params' dt_s' =
     \<lparr>params = params',
      dt_s = dt_s',
      state = \<lparr>altitude_m = AircraftParams.altitude_m params',
               airspeed_m_s = AircraftParams.airspeed_m_s params',
               angle_of_attack_deg = AircraftParams.angle_of_attack_deg params',
               time_s = 0, lift_N = 0, drag_N = 0, thrust_N = 0, weight_N = 0,
               acceleration_m_s2 = 0\<rparr>\<rparr>"

definition sync_params_from_state :: "AerodynamicsSimulator \<Rightarrow> AerodynamicsSimulator" where
  "sync_params_from_state self =
     self\<lparr>params := (params self)
       \<lparr>AircraftParams.altitude_m := altitude_m (state self),
        AircraftParams.airspeed_m_s := airspeed_m_s (state self),
        AircraftParams.angle_of_attack_deg := angle_of_attack_deg (state self)\<rparr>\<rparr>"

text \<open>
  \<open>AerodynamicsSimulator.step\<close>. The first component of the result is the object after
  the call, whether the call returned or raised; the second is the returned state or the
  exception. Nothing of the state has been written when \<open>compute_drag\<close> or the division
  by the mass raises; the parameter record has already been synchronised. The source's
  local \<open>alpha_rad\<close> is computed and never read; it is left out.
\<close>

definition step :: "AerodynamicsSimulator \<Rightarrow> AerodynamicsSimulator \<times> (py_error + SimulationState)" where
  "step self0 =
     (let self = sync_params_from_state self0;
          L = compute_lift (params self)
      in case compute_drag (params self) of
           Inl err \<Rightarrow> (self, Inl err)
         | Inr D \<Rightarrow>
             (let T = compute_thrust (params self);
                  W = compute_weight (params self)
              in case py_div (T - D) (mass_kg (params self)) of
                   Inl err \<Rightarrow> (self, Inl err)
                 | Inr axial \<Rightarrow>
                     (let st1 = (state self)
                            \<lparr>lift_N := L, drag_N := D, thrust_N := T, weight_N := W,
                             acceleration_m_s2 := axial\<rparr>;
                          v = airspeed_m_s st1;
                          st2 = st1\<lparr>airspeed_m_s := max 5 (v + axial * dt_s self)\<rparr>
                      in if W > 0 then
                           (case py_div (T - D) W of
                              Inl err \<Rightarrow> (self\<lparr>state := st2\<rparr>, Inl err)
                            | Inr ratio \<Rightarrow>
                                (let sin_gamma = max (- 0.5) (min 0.5 ratio);
                                     climb_rate = airspeed_m_s st2 * sin_gamma;
                                     st3 = st2\<lparr>altitude_m :=
                                             max 0 (altitude_m st2 + climb_rate * dt_s self)\<rparr>;
                                     st4 = st3\<lparr>time_s := time_s st3 + dt_s self\<rparr>
                                 in (self\<lparr>state := st4\<rparr>, Inr st4)))
                         else
                           (let st4 = st2\<lparr>time_s := time_s st2 + dt_s self\<rparr>
                            in (self\<lparr>state := st4\<rparr>, Inr st4)))))"

section \<open>The documented formulas\<close>

text \<open>
  The definitions of this section follow the words of the specification, not the code;
  the theorems below compare them with the functions above.
\<close>

text \<open>
  The troposphere density \<open>\<rho>0 \<cdot> (T/T0)^(g\<cdot>M/(R\<cdot>L) - 1)\<close> with \<open>T = T0 - L\<cdot>h\<close> and the
  documented constants.
\<close>

definition troposphere_formula :: "real \<Rightarrow> real" where
  "troposphere_formula h =
     1.225 * ((288.15 - 0.0065 * h) / 288.15) powr (9.81 * 0.0289644 / (287.05 * 0.0065) - 1)"

text \<open>The documented drag coefficient and drag force.\<close>

definition documented_drag_coefficient :: "real \<Rightarrow> real \<Rightarrow> real \<Rightarrow> real \<Rightarrow> real" where
  "documented_drag_coefficient cl c ar e =
     (if ar \<le> 0 \<or> e \<le> 0 then c else c + cl\<^sup>2 / (pi * e * ar))"

definition documented_drag :: "AircraftParams \<Rightarrow> real" where
  "documented_drag p =
     dynamic_pressure (air_density (AircraftParams.altitude_m p))
         (AircraftParams.airspeed_m_s p) * wing_area_m2 p *
       documented_drag_coefficient
         (cl_alpha p * radians (AircraftParams.angle_of_attack_deg p)) (cd0 p)
         (aspect_ratio p) (oswald_efficiency p)"

text \<open>
  The documented one-step formulas, applied to the initial parameters \<open>p\<close> and the time
  step \<open>dt\<close>: the state a simulator is documented to hold after its first step. The
  division by the mass is the division of the reals, meaningful for a non-zero mass.
\<close>

definition documented_step :: "AircraftParams \<Rightarrow> real \<Rightarrow> SimulationState" where
  "documented_step p dt =
     (let L = compute_lift p;
          D = documented_drag p;
          T = compute_thrust p;
          W = compute_weight p;
          a = (T - D) / mass_kg p;
          v_new = max 5 (AircraftParams.airspeed_m_s p + a * dt);
          altitude_new =
            (if W > 0
             then max 0 (AircraftParams.altitude_m p +
                    v_new * max (- 0.5) (min 0.5 ((T - D) / W)) * dt)
             else AircraftParams.altitude_m p)
      in \<lparr>altitude_m = altitude_new, airspeed_m_s = v_new,
          angle_of_attack_deg = AircraftParams.angle_of_attack_deg p, time_s = dt,
          lift_N = L, drag_N = D, thrust_N = T, weight_N = W, acceleration_m_s2 = a\<rparr>)"

text \<open>
  The state that a returning call of \<open>step\<close> leaves in the simulator \<open>s\<close>, in closed form,
  from the drag \<open>D\<close> that \<open>compute_drag\<close> returned (lemma \<open>step_returns\<close>).
\<close>

definition step_state :: "AerodynamicsSimulator \<Rightarrow> real \<Rightarrow> SimulationState" where
  "step_state s D =
     (let p = params (sync_params_from_state s);
          T = compute_thrust p;
          W = compute_weight p;
          a = (T - D) / mass_kg p;
          v_new = max 5 (airspeed_m_s (state s) + a * dt_s s)
      in (state s)
          \<lparr>altitude_m :=
             (if W > 0
              then max 0 (altitude_m (state s) +
                     v_new * max (- 0.5) (min 0.5 ((T - D) / W)) * dt_s s)
              else altitude_m (state s)),
           airspeed_m_s := v_new,
           time_s := time_s (state s) + dt_s s,
           lift_N := compute_lift p, drag_N := D, thrust_N := T, weight_N := W,
           acceleration_m_s2 := a\<rparr>)"

text \<open>A level-flight configuration: the defaults at zero angle of attack.\<close>

definition p_level :: AircraftParams where
  "p_level = default_params\<lparr>AircraftParams.angle_of_attack_deg := 0\<rparr>"

section \<open>The atmosphere\<close>

lemma troposphere_base_pos:
  assumes "h \<le> 11000"
  shows "0 < (TEMP_SEA_LEVEL - LAPSE_RATE * h) / TEMP_SEA_LEVEL"
  using assms by (simp add: constants_defs)

lemma troposphere_formula_pos: "h \<le> 11000 \<Longrightarrow> 0 < troposphere_formula h"
  by (simp add: troposphere_formula_def)

lemma air_density_troposphere:
  "0 < h \<Longrightarrow> h \<le> 11000 \<Longrightarrow> air_density h = troposphere_formula h"
  by (simp add: air_density_def troposphere_formula_def py_pow_def constants_defs)

lemma air_density_stratosphere:
  "11000 < h \<Longrightarrow>
     air_density h = troposphere_formula 11000 * 2.718 powr (- 0.000157 * (h - 11000))"
  by (simp add: air_density_def troposphere_formula_def py_pow_def constants_defs Let_def)

text \<open>The value returned on each branch of \<open>air_density\<close>.\<close>

lemma air_density_by_branch:
  "air_density h =
     (case air_density_branch h of
        Sea_level \<Rightarrow> 1.225
      | Stratosphere \<Rightarrow> troposphere_formula 11000 * 2.718 powr (- 0.000157 * (h - 11000))
      | Troposphere \<Rightarrow> troposphere_formula h)"
proof -
  consider "h \<le> 0" | "0 < h" "h \<le> 11000" | "11000 < h" by linarith
  then show ?thesis
  proof cases
    case 1
    then show ?thesis by (simp add: air_density_branch_def air_density_def constants_defs)
  next
    case 2
    then show ?thesis by (simp add: air_density_branch_def air_density_troposphere)
  next
    case 3
    then show ?thesis by (simp add: air_density_branch_def air_density_stratosphere)
  qed
qed

text \<open>Euler's number is not the literal \<open>2.718\<close>: seven terms of its series exceed it.\<close>

lemma euler_above_2718: "(2.718 :: real) < exp 1"
proof -
  let ?f = "\<lambda>n. (1::real) ^ n /\<^sub>R fact n"
  have s: "?f sums exp 1" by (rule exp_converges)
  then have "summable ?f" by (simp add: sums_iff)
  then have "sum ?f {..<7} \<le> suminf ?f"
    by (rule sum_le_suminf) auto
  also have "suminf ?f = exp 1" using s by (simp add: sums_iff)
  finally have "sum ?f {..<7} \<le> exp 1" .
  moreover have "sum ?f {..<7} = 1957 / 720"
    by (simp add: lessThan_nat_numeral lessThan_Suc fact_numeral)
  ultimately show ?thesis by simp
qed

lemma powr_2718_neq_exp:
  assumes "x \<noteq> 0"
  shows "(2.718 :: real) powr x \<noteq> exp x"
proof
  assume "(2.718 :: real) powr x = exp x"
  then have "x * ln (2.718 :: real) = x" by (simp add: powr_def)
  with assms have "ln (2.718 :: real) = 1" by simp
  then have "exp (ln (2.718 :: real)) = exp 1" by simp
  then have "(2.718 :: real) = exp 1" by simp
  with euler_above_2718 show False by simp
qed

text \<open>
  Claim C2, as stated: above 11000 m the density is \<open>\<rho>_11 \<cdot> e^(-0.000157\<cdot>(h - 11000))\<close>
  with Euler's number \<open>e\<close>. The code raises the literal \<open>2.718\<close> to that power, and at
  12000 m the two differ.
\<close>

theorem air_density_12000_not_euler:
  "air_density 12000 \<noteq> troposphere_formula 11000 * exp (- 0.000157 * (12000 - 11000))"
proof -
  have "air_density 12000 =
      troposphere_formula 11000 * 2.718 powr (- 0.000157 * (12000 - 11000))"
    by (rule air_density_stratosphere) simp
  moreover have "(2.718 :: real) powr (- 0.000157 * (12000 - 11000)) \<noteq>
      exp (- 0.000157 * (12000 - 11000))"
    by (rule powr_2718_neq_exp) simp
  moreover have "troposphere_formula 11000 \<noteq> 0"
    using troposphere_formula_pos [of 11000] by simp
  ultimately show ?thesis by simp
qed

text \<open>
  Claim C2, amended: for every altitude \<open>h > 11000\<close>, \<open>air_density h\<close> is
  \<open>\<rho>_11 \<cdot> 2.718^(-0.000157\<cdot>(h - 11000))\<close>, where \<open>\<rho>_11\<close> is the troposphere formula at
  exactly 11000 m and the base is the decimal literal \<open>2.718\<close>.
\<close>

theorem air_density_above_11000:
  assumes "11000 < h"
  shows "air_density h = troposphere_formula 11000 * 2.718 powr (- 0.000157 * (h - 11000))"
  using assms by (rule air_density_stratosphere)

theorem air_density_above_11000_witness:
  "(11000 :: real) < 12000 \<and>
   air_density 12000 = troposphere_formula 11000 * 2.718 powr (- 0.000157 * (12000 - 11000))"
  using air_density_above_11000 [of 12000] by simp

text \<open>
  Claim C4: \<open>pressure\<close> returns 101325 at and below sea level and otherwise the one
  barometric formula \<open>P0 \<cdot> (T/T0)^(-g/(R\<cdot>L))\<close>, its temperature taken at
  \<open>min h 11000\<close>; so above 11000 m the pressure is the pressure at 11000 m.
\<close>

theorem pressure_clamped_barometric:
  "(h \<le> 0 \<longrightarrow> pressure h = 101325) \<and>
   (0 < h \<longrightarrow> pressure h =
      101325 * ((288.15 - 0.0065 * min h 11000) / 288.15) powr (- 9.81 / (287.05 * 0.0065))) \<and>
   (11000 < h \<longrightarrow> pressure h = pressure 11000)"
  by (simp add: pressure_def py_pow_def constants_defs)

theorem pressure_clamped_barometric_witness:
  "pressure 0 = 101325 \<and> pressure 12000 = pressure 11000 \<and>
   pressure 5000 =
     101325 * ((288.15 - 0.0065 * 5000) / 288.15) powr (- 9.81 / (287.05 * 0.0065))"
  using pressure_clamped_barometric [of 0] pressure_clamped_barometric [of 12000]
    pressure_clamped_barometric [of 5000]
  by simp

text \<open>
  Claim C5: at exactly 11000 m \<open>air_density\<close> takes the troposphere branch and returns
  the troposphere formula \<open>\<rho>0 \<cdot> (T/T0)^(g\<cdot>M/(R\<cdot>L) - 1)\<close> with \<open>T = T0 - L\<cdot>11000\<close>; it
  returns the troposphere formula at every altitude in \<open>(0, 11000]\<close>, and the stratosphere
  expression exactly at the altitudes strictly above 11000 m.
\<close>

theorem air_density_at_11000_troposphere:
  "air_density 11000 = troposphere_formula 11000 \<and>
   air_density_branch 11000 = Troposphere \<and>
   (0 < h \<and> h \<le> 11000 \<longrightarrow>
      air_density_branch h = Troposphere \<and> air_density h = troposphere_formula h) \<and>
   (11000 < h \<longrightarrow>
      air_density_branch h = Stratosphere \<and>
      air_density h = troposphere_formula 11000 * 2.718 powr (- 0.000157 * (h - 11000))) \<and>
   (air_density_branch h = Stratosphere \<longleftrightarrow> 11000 < h) \<and>
   air_density h =
     (case air_density_branch h of
        Sea_level \<Rightarrow> 1.225
      | Stratosphere \<Rightarrow> troposphere_formula 11000 * 2.718 powr (- 0.000157 * (h - 11000))
      | Troposphere \<Rightarrow> troposphere_formula h)"
proof -
  have "air_density 11000 = troposphere_formula 11000"
    by (rule air_density_troposphere) simp_all
  moreover have "air_density_branch 11000 = Troposphere"
    by (simp add: air_density_branch_def)
  moreover have "0 < h \<and> h \<le> 11000 \<longrightarrow>
      air_density_branch h = Troposphere \<and> air_density h = troposphere_formula h"
    by (simp add: air_density_branch_def air_density_troposphere)
  moreover have "11000 < h \<longrightarrow>
      air_density_branch h = Stratosphere \<and>
      air_density h = troposphere_formula 11000 * 2.718 powr (- 0.000157 * (h - 11000))"
    by (simp add: air_density_branch_def air_density_stratosphere)
  moreover have "air_density_branch h = Stratosphere \<longleftrightarrow> 11000 < h"
    by (simp add: air_density_branch_def)
  ultimately show ?thesis
    using air_density_by_branch [of h] by blast
qed

theorem air_density_at_11000_troposphere_witness:
  "air_density 11000 = troposphere_formula 11000 \<and>
   air_density_branch 11000 = Troposphere \<and>
   air_density 5000 = troposphere_formula 5000 \<and>
   air_density_branch 5000 = Troposphere \<and>
   air_density_branch 12000 = Stratosphere \<and>
   air_density 12000 = troposphere_formula 11000 * 2.718 powr (- 0.000157 * (12000 - 11000))"
  using air_density_at_11000_troposphere [of 5000] air_density_at_11000_troposphere [of 12000]
  by simp

section \<open>The forces\<close>

lemma DBL_OVERFLOW_gt_1: "1 < DBL_OVERFLOW"
  by (simp add: DBL_OVERFLOW_def)

lemma DBL_UNDERFLOW_lt_1: "DBL_UNDERFLOW < 1"
  by (simp add: DBL_UNDERFLOW_def)

lemma py_mul_in_range: "DBL_UNDERFLOW < \<bar>x * y\<bar> \<Longrightarrow> py_mul x y = x * y"
  by (simp add: py_mul_def)

lemma py_pow_int_in_range: "\<bar>x ^ n\<bar> < DBL_OVERFLOW \<Longrightarrow> py_pow_int x n = Inr (x ^ n)"
  by (simp add: py_pow_int_def)

lemma drag_coefficient_guarded:
  "ar \<le> 0 \<or> e \<le> 0 \<Longrightarrow> drag_coefficient cl c ar e = Inr c"
  by (auto simp add: drag_coefficient_def)

lemma drag_coefficient_in_range:
  assumes "0 < ar" "0 < e" "\<bar>cl\<^sup>2\<bar> < DBL_OVERFLOW"
    and "DBL_UNDERFLOW < \<bar>pi * e\<bar>" "DBL_UNDERFLOW < \<bar>pi * e * ar\<bar>"
  shows "drag_coefficient cl c ar e = Inr (c + cl\<^sup>2 / (pi * e * ar))"
proof -
  have "py_mul (py_mul pi e) ar = pi * e * ar"
    using assms(4,5) by (simp add: py_mul_in_range)
  moreover have "pi * e * ar \<noteq> 0"
    using assms(1,2) by simp
  ultimately show ?thesis
    using assms(1,2,3) by (simp add: drag_coefficient_def py_pow_int_in_range py_div_def)
qed

text \<open>A drag that is returned is the documented drag.\<close>

lemma py_mul_nonzero: "py_mul x y \<noteq> 0 \<Longrightarrow> py_mul x y = x * y"
  by (simp add: py_mul_def split: if_splits)

lemma drag_coefficient_value:
  assumes "drag_coefficient cl c ar e = Inr cd"
  shows "cd = documented_drag_coefficient cl c ar e"
proof (cases "ar \<le> 0 \<or> e \<le> 0")
  case True
  with assms show ?thesis
    by (auto simp add: drag_coefficient_def documented_drag_coefficient_def)
next
  case False
  with assms have nz: "py_mul (py_mul pi e) ar \<noteq> 0"
    by (auto simp add: drag_coefficient_def py_div_def split: sum.splits if_splits)
  then have "py_mul (py_mul pi e) ar = py_mul pi e * ar"
    by (rule py_mul_nonzero)
  moreover from nz have "py_mul pi e \<noteq> 0"
    by (auto simp add: py_mul_def DBL_UNDERFLOW_def)
  then have "py_mul pi e = pi * e"
    by (rule py_mul_nonzero)
  ultimately have "py_mul (py_mul pi e) ar = pi * e * ar" by simp
  with assms False show ?thesis
    by (auto simp add: drag_coefficient_def documented_drag_coefficient_def py_div_def
        py_pow_int_def split: sum.splits if_splits)
qed

lemma compute_drag_value:
  assumes "compute_drag p = Inr D"
  shows "D = documented_drag p"
  using assms
  by (auto simp add: compute_drag_def documented_drag_def lift_coefficient_def Let_def
      mult.commute split: sum.splits dest!: drag_coefficient_value)

text \<open>The drag coefficient on the default wing, for a lift coefficient of magnitude at most 1.\<close>

lemma drag_coefficient_default_wing:
  assumes "\<bar>cl\<bar> \<le> 1"
  shows "drag_coefficient cl c 8 0.82 = Inr (c + cl\<^sup>2 / (pi * 0.82 * 8))"
proof (rule drag_coefficient_in_range)
  have "cl\<^sup>2 \<le> 1" using assms by (simp add: abs_square_le_1)
  then show "\<bar>cl\<^sup>2\<bar> < DBL_OVERFLOW" using DBL_OVERFLOW_gt_1 by simp
  have "1 < pi * 0.82" using pi_ge_two by simp
  then show "DBL_UNDERFLOW < \<bar>pi * 0.82\<bar>" using DBL_UNDERFLOW_lt_1 by simp
  have "1 < pi * 0.82 * 8" using pi_ge_two by simp
  then show "DBL_UNDERFLOW < \<bar>pi * 0.82 * 8\<bar>" using DBL_UNDERFLOW_lt_1 by simp
qed simp_all

lemma compute_drag_p_level: "compute_drag p_level = Inr 765.625"
proof -
  have "drag_coefficient 0 0.025 8 0.82 = Inr 0.025"
    using drag_coefficient_default_wing [of 0 "0.025"] by simp
  then show ?thesis
    by (simp add: compute_drag_def p_level_def default_params_def lift_coefficient_def
        radians_def dynamic_pressure_def air_density_def constants_defs)
qed

lemma default_lift_coefficient_small: "\<bar>lift_coefficient (radians 3) 5.5\<bar> \<le> 1"
proof -
  have "0 < pi" "pi < 4" using pi_gt_zero pi_less_4 by simp_all
  then show ?thesis by (simp add: lift_coefficient_def radians_def)
qed

lemma compute_drag_default_returns:
  "\<exists>D. compute_drag (default_params\<lparr>mass_kg := m\<rparr>) = Inr D"
  using drag_coefficient_default_wing [OF default_lift_coefficient_small, of "0.025"]
  by (simp add: compute_drag_def default_params_def Let_def)

text \<open>
  A raising run of \<open>drag_coefficient\<close> with both guards passed: at \<open>cl = 1e200\<close> the
  square overflows.
\<close>

lemma drag_coefficient_overflow_raises:
  "drag_coefficient (10 ^ 200) 0.025 8 0.82 = Inl OverflowError"
  by (simp add: drag_coefficient_def py_pow_int_def DBL_OVERFLOW_def)

text \<open>
  Claim C6 says that \<open>drag_coefficient\<close> divides by zero on no input: it returns \<open>cd0\<close>
  when the aspect ratio or the Oswald efficiency is not positive and
  \<open>cd0 + cl\<^sup>2 / (\<pi> \<cdot> e \<cdot> AR)\<close> otherwise. With \<open>cl = 1\<close>, \<open>cd0 = 0.025\<close> and
  \<open>AR = e = 1e-200\<close> both guards are passed, the divisor \<open>\<pi> \<cdot> e \<cdot> AR\<close> underflows to zero
  and the division raises \<open>ZeroDivisionError\<close>.
\<close>

theorem drag_coefficient_underflow_raises:
  "drag_coefficient 1 0.025 (1 / 10 ^ 200) (1 / 10 ^ 200) = Inl ZeroDivisionError"
proof -
  have p: "0 < pi" "pi < 4" using pi_gt_zero pi_less_4 by simp_all
  have "py_pow_int 1 2 = Inr 1"
    using DBL_OVERFLOW_gt_1 by (simp add: py_pow_int_def)
  moreover have "py_mul (py_mul pi (1 / 10 ^ 200)) (1 / 10 ^ 200) = 0"
  proof -
    have "\<bar>pi * (1 / 10 ^ 200) * (1 / 10 ^ 200)\<bar> \<le> 4 * (1 / 10 ^ 200) * (1 / 10 ^ 200)"
      using p by simp
    also have "\<dots> \<le> DBL_UNDERFLOW" by (simp add: DBL_UNDERFLOW_def)
    finally have "\<bar>pi * (1 / 10 ^ 200) * (1 / 10 ^ 200)\<bar> \<le> DBL_UNDERFLOW" .
    then show ?thesis by (simp add: py_mul_def)
  qed
  ultimately show ?thesis
    by (simp add: drag_coefficient_def py_div_def)
qed

text \<open>
  Claim C8: \<open>compute_thrust_required\<close> is \<open>compute_drag\<close>, and changing only the maximum
  thrust and the throttle of the parameter record leaves it unchanged.
\<close>

theorem thrust_required_is_drag:
  "compute_thrust_required p = compute_drag p \<and>
   compute_thrust_required (p\<lparr>max_thrust_N := mt, thrust_ratio := tr\<rparr>) =
     compute_thrust_required p"
  by (simp add: compute_thrust_required_def compute_drag_def Let_def split: sum.splits)

section \<open>The integrator\<close>

lemma sync_params_fields:
  "state (sync_params_from_state s) = state s"
  "dt_s (sync_params_from_state s) = dt_s s"
  "mass_kg (params (sync_params_from_state s)) = mass_kg (params s)"
  by (simp_all add: sync_params_from_state_def)

lemma sync_params_eq:
  "params (sync_params_from_state s) =
     (params s)\<lparr>AircraftParams.altitude_m := altitude_m (state s),
       AircraftParams.airspeed_m_s := airspeed_m_s (state s),
       AircraftParams.angle_of_attack_deg := angle_of_attack_deg (state s)\<rparr>"
  by (simp add: sync_params_from_state_def)

lemma sync_init: "sync_params_from_state (init p dt) = init p dt"
  by (simp add: sync_params_from_state_def init_def)

lemma step_drag_raises:
  assumes "compute_drag (params (sync_params_from_state s)) = Inl err"
  shows "step s = (sync_params_from_state s, Inl err)"
  using assms by (simp add: step_def)

lemma step_mass_raises:
  assumes "compute_drag (params (sync_params_from_state s)) = Inr D"
    and "mass_kg (params s) = 0"
  shows "step s = (sync_params_from_state s, Inl ZeroDivisionError)"
  using assms by (simp add: step_def py_div_def sync_params_fields)

lemma step_returns:
  assumes "compute_drag (params (sync_params_from_state s)) = Inr D"
    and "mass_kg (params s) \<noteq> 0"
  shows "step s =
    ((sync_params_from_state s)\<lparr>state := step_state s D\<rparr>, Inr (step_state s D))"
  using assms
  by (simp add: step_def step_state_def py_div_def sync_params_fields Let_def)

text \<open>The two outcomes of a call of \<open>step\<close>.\<close>

lemma step_outcome:
  "(\<exists>err. step s = (sync_params_from_state s, Inl err)) \<or>
   (\<exists>D. step s =
      ((sync_params_from_state s)\<lparr>state := step_state s D\<rparr>, Inr (step_state s D)))"
proof (cases "compute_drag (params (sync_params_from_state s))")
  case (Inl err)
  then show ?thesis by (simp add: step_drag_raises)
next
  case (Inr D)
  show ?thesis
  proof (cases "mass_kg (params s) = 0")
    case True
    with Inr show ?thesis by (simp add: step_mass_raises)
  next
    case False
    with Inr have "step s =
        ((sync_params_from_state s)\<lparr>state := step_state s D\<rparr>, Inr (step_state s D))"
      by (rule step_returns)
    then show ?thesis by blast
  qed
qed

lemma step_params: "params (fst (step s)) = params (sync_params_from_state s)"
  using step_outcome [of s] by auto

lemma step_state_airspeed: "5 \<le> airspeed_m_s (step_state s D)"
  by (simp add: step_state_def Let_def)

lemma step_state_altitude:
  "0 < compute_weight (params s) \<or> 0 \<le> altitude_m (state s) \<Longrightarrow>
     0 \<le> altitude_m (step_state s D)"
  by (auto simp add: step_state_def Let_def compute_weight_def sync_params_fields)

lemma step_state_angle:
  "angle_of_attack_deg (step_state s D) = angle_of_attack_deg (state s)"
  by (simp add: step_state_def Let_def)

lemma step_state_init: "step_state (init p dt) (documented_drag p) = documented_step p dt"
  by (simp add: step_state_def documented_step_def init_def sync_params_from_state_def
      Let_def)

text \<open>Whenever the first step returns, it returns the state of the documented formulas.\<close>

lemma first_step_returns_documented:
  assumes "snd (step (init p dt)) = Inr st"
  shows "st = documented_step p dt"
proof (cases "compute_drag (params (sync_params_from_state (init p dt)))")
  case (Inl err)
  then have "step (init p dt) = (sync_params_from_state (init p dt), Inl err)"
    by (rule step_drag_raises)
  with assms show ?thesis by simp
next
  case (Inr D)
  then have "compute_drag p = Inr D"
    by (simp add: sync_init) (simp add: init_def)
  then have D: "D = documented_drag p" by (rule compute_drag_value)
  show ?thesis
  proof (cases "mass_kg (params (init p dt)) = 0")
    case True
    with Inr have "step (init p dt) =
        (sync_params_from_state (init p dt), Inl ZeroDivisionError)"
      by (rule step_mass_raises)
    with assms show ?thesis by simp
  next
    case False
    with Inr have "step (init p dt) =
        ((sync_params_from_state (init p dt))\<lparr>state := step_state (init p dt) D\<rparr>,
         Inr (step_state (init p dt) D))"
      by (rule step_returns)
    with assms D show ?thesis by (simp add: step_state_init)
  qed
qed

text \<open>
  Claim C1 says that for every initial parameter record the first \<open>step\<close> yields the
  state of the documented one-step formulas. On the level-flight record with the mass
  set to zero and a time step of 1 the call yields no state: it raises
  \<open>ZeroDivisionError\<close> at the division by the mass.
\<close>

theorem step_zero_mass_no_state:
  "snd (step (init (p_level\<lparr>mass_kg := 0\<rparr>) 1)) = Inl ZeroDivisionError \<and>
   snd (step (init (p_level\<lparr>mass_kg := 0\<rparr>) 1)) \<noteq>
     Inr (documented_step (p_level\<lparr>mass_kg := 0\<rparr>) 1)"
proof -
  have "compute_drag (p_level\<lparr>mass_kg := 0\<rparr>) = compute_drag p_level"
    by (simp add: compute_drag_def Let_def split: sum.splits)
  then have "compute_drag (params (sync_params_from_state (init (p_level\<lparr>mass_kg := 0\<rparr>) 1)))
      = Inr 765.625"
    by (simp add: sync_init compute_drag_p_level) (simp add: init_def)
  then have "step (init (p_level\<lparr>mass_kg := 0\<rparr>) 1) =
      (sync_params_from_state (init (p_level\<lparr>mass_kg := 0\<rparr>) 1), Inl ZeroDivisionError)"
    by (rule step_mass_raises) (simp add: init_def)
  then show ?thesis by simp
qed

text \<open>
  Claim C3 says that no core operation raises on a zero or negative weight and that
  \<open>step\<close> completes there. On the default parameters with the mass set to zero, \<open>step\<close>
  raises \<open>ZeroDivisionError\<close>.
\<close>

theorem step_default_zero_mass_raises:
  "snd (step (init (default_params\<lparr>mass_kg := 0\<rparr>) 0.1)) = Inl ZeroDivisionError"
proof -
  obtain D where "compute_drag (default_params\<lparr>mass_kg := 0\<rparr>) = Inr D"
    using compute_drag_default_returns [of 0] by blast
  then have "compute_drag
      (params (sync_params_from_state (init (default_params\<lparr>mass_kg := 0\<rparr>) 0.1))) = Inr D"
    by (simp add: sync_init) (simp add: init_def)
  then have "step (init (default_params\<lparr>mass_kg := 0\<rparr>) 0.1) =
      (sync_params_from_state (init (default_params\<lparr>mass_kg := 0\<rparr>) 0.1),
       Inl ZeroDivisionError)"
    by (rule step_mass_raises) (simp add: init_def)
  then show ?thesis by simp
qed

text \<open>
  Claim C7, as stated: airspeed \<open>\<ge> 5.0\<close> and altitude \<open>\<ge> 0.0\<close> hold in every reachable
  state, the constructed one included, and after every step from any prior state. The
  constructor copies an airspeed of 2 unchanged; and a step from altitude -100 with a
  negative mass (weight \<open>\<le> 0\<close>) skips the altitude update and leaves -100.
\<close>

theorem floors_fail_counterexample:
  "airspeed_m_s (state (init (default_params\<lparr>AircraftParams.airspeed_m_s := 2\<rparr>) 0.1)) < 5 \<and>
   altitude_m (state (fst (step (init
      (default_params\<lparr>mass_kg := - 1000, AircraftParams.altitude_m := - 100\<rparr>) 0.1)))) < 0"
proof -
  let ?s = "init (default_params\<lparr>mass_kg := - 1000, AircraftParams.altitude_m := - 100\<rparr>) 0.1"
  have a: "altitude_m (state ?s) = - 100"
    by (simp add: init_def)
  have w: "\<not> 0 < compute_weight (params (sync_params_from_state ?s))"
    by (simp add: compute_weight_def sync_params_fields constants_defs)
      (simp add: init_def)
  have "altitude_m (state (fst (step ?s))) = - 100"
    using step_outcome [of ?s] a w
    by (auto simp add: sync_params_fields step_state_def Let_def)
  then show ?thesis by (simp add: init_def)
qed

text \<open>
  Claim C7, amended: after every call of \<open>step\<close> that returns, the state (the returned
  one) has airspeed \<open>\<ge> 5.0\<close>, and altitude \<open>\<ge> 0.0\<close> provided the weight is positive or
  the altitude was \<open>\<ge> 0.0\<close> before the call; a call of \<open>step\<close> from a state within both
  bounds leaves a state within both bounds; and the constructed state has the airspeed
  and the altitude of the parameter record, unchanged.
\<close>

theorem step_floors:
  "(\<not> isl (snd (step s)) \<longrightarrow>
      snd (step s) = Inr (state (fst (step s))) \<and>
      5 \<le> airspeed_m_s (state (fst (step s))) \<and>
      (0 < compute_weight (params s) \<or> 0 \<le> altitude_m (state s) \<longrightarrow>
         0 \<le> altitude_m (state (fst (step s))))) \<and>
   (5 \<le> airspeed_m_s (state s) \<and> 0 \<le> altitude_m (state s) \<longrightarrow>
      5 \<le> airspeed_m_s (state (fst (step s))) \<and> 0 \<le> altitude_m (state (fst (step s)))) \<and>
   airspeed_m_s (state (init p dt)) = AircraftParams.airspeed_m_s p \<and>
   altitude_m (state (init p dt)) = AircraftParams.altitude_m p"
proof -
  have i: "airspeed_m_s (state (init p dt)) = AircraftParams.airspeed_m_s p \<and>
      altitude_m (state (init p dt)) = AircraftParams.altitude_m p"
    by (simp add: init_def)
  from step_outcome [of s] show ?thesis
  proof (elim disjE exE)
    fix err
    assume "step s = (sync_params_from_state s, Inl err)"
    with i show ?thesis by (simp add: sync_params_fields)
  next
    fix D
    assume "step s =
      ((sync_params_from_state s)\<lparr>state := step_state s D\<rparr>, Inr (step_state s D))"
    with i show ?thesis
      using step_state_airspeed [of s D] step_state_altitude [of s D] by simp
  qed
qed

theorem step_floors_witness:
  "\<not> isl (snd (step (init p_level 0.1))) \<and>
   5 \<le> airspeed_m_s (state (init p_level 0.1)) \<and>
   0 \<le> altitude_m (state (init p_level 0.1)) \<and>
   0 < compute_weight (params (init p_level 0.1)) \<and>
   5 \<le> airspeed_m_s (state (fst (step (init p_level 0.1)))) \<and>
   0 \<le> altitude_m (state (fst (step (init p_level 0.1))))"
proof -
  have "compute_drag (params (sync_params_from_state (init p_level 0.1))) = Inr 765.625"
    by (simp add: sync_init) (simp add: init_def compute_drag_p_level)
  then have "step (init p_level 0.1) =
      ((sync_params_from_state (init p_level 0.1))
         \<lparr>state := step_state (init p_level 0.1) 765.625\<rparr>,
       Inr (step_state (init p_level 0.1) 765.625))"
    by (rule step_returns) (simp add: init_def p_level_def default_params_def)
  then have a: "\<not> isl (snd (step (init p_level 0.1)))"
    by simp
  have b: "5 \<le> airspeed_m_s (state (init p_level 0.1)) \<and>
      0 \<le> altitude_m (state (init p_level 0.1))"
    by (simp add: init_def p_level_def default_params_def)
  have c: "0 < compute_weight (params (init p_level 0.1))"
    by (simp add: init_def p_level_def default_params_def compute_weight_def constants_defs)
  from step_floors [of "init p_level 0.1" p_level "0.1"] a b c show ?thesis
    by blast
qed

text \<open>
  Claim C9: \<open>step\<close> never changes the state's angle of attack nor the mass, wing area,
  aspect ratio, \<open>cl_alpha\<close>, \<open>cd0\<close>, Oswald efficiency, maximum thrust and throttle of the
  parameter record; the parameter record after the call is the one before it with
  altitude, airspeed and angle of attack overwritten from the state.
\<close>

theorem step_frame:
  "angle_of_attack_deg (state (fst (step s))) = angle_of_attack_deg (state s) \<and>
   mass_kg (params (fst (step s))) = mass_kg (params s) \<and>
   wing_area_m2 (params (fst (step s))) = wing_area_m2 (params s) \<and>
   aspect_ratio (params (fst (step s))) = aspect_ratio (params s) \<and>
   cl_alpha (params (fst (step s))) = cl_alpha (params s) \<and>
   cd0 (params (fst (step s))) = cd0 (params s) \<and>
   oswald_efficiency (params (fst (step s))) = oswald_efficiency (params s) \<and>
   max_thrust_N (params (fst (step s))) = max_thrust_N (params s) \<and>
   thrust_ratio (params (fst (step s))) = thrust_ratio (params s) \<and>
   params (fst (step s)) =
     (params s)\<lparr>AircraftParams.altitude_m := altitude_m (state s),
       AircraftParams.airspeed_m_s := airspeed_m_s (state s),
       AircraftParams.angle_of_attack_deg := angle_of_attack_deg (state s)\<rparr>"
proof -
  have "angle_of_attack_deg (state (fst (step s))) = angle_of_attack_deg (state s)"
    using step_outcome [of s] by (auto simp add: sync_params_fields step_state_angle)
  then show ?thesis
    by (simp add: step_params sync_params_eq)
qed

text \<open>
  Claim C10: after \<open>step\<close> the parameter record's altitude, airspeed and angle of attack
  are those the state had when the call began, not those of the returned state; after
  the next call they are the altitude and airspeed of the state this call returned.
\<close>

theorem params_lag_state:
  "AircraftParams.altitude_m (params (fst (step s))) = altitude_m (state s) \<and>
   AircraftParams.airspeed_m_s (params (fst (step s))) = airspeed_m_s (state s) \<and>
   AircraftParams.angle_of_attack_deg (params (fst (step s))) = angle_of_attack_deg (state s) \<and>
   (snd (step s) = Inr st \<longrightarrow>
      AircraftParams.altitude_m (params (fst (step (fst (step s))))) = altitude_m st \<and>
      AircraftParams.airspeed_m_s (params (fst (step (fst (step s))))) = airspeed_m_s st)"
proof -
  have "snd (step s) = Inr st \<longrightarrow> state (fst (step s)) = st"
    using step_outcome [of s] by auto
  then show ?thesis
    by (auto simp add: step_params sync_params_eq)
qed

theorem params_lag_state_witness:
  "snd (step (init p_level 0.1)) = Inr (documented_step p_level 0.1) \<and>
   AircraftParams.airspeed_m_s (params (fst (step (init p_level 0.1)))) = 50 \<and>
   airspeed_m_s (documented_step p_level 0.1) = 50.4234375 \<and>
   AircraftParams.airspeed_m_s (params (fst (step (fst (step (init p_level 0.1)))))) = 50.4234375"
proof -
  have m: "mass_kg (params (init p_level 0.1)) \<noteq> 0"
    by (simp add: init_def p_level_def default_params_def)
  have d: "documented_drag p_level = 765.625"
    by (simp add: p_level_def default_params_def documented_drag_def
        documented_drag_coefficient_def dynamic_pressure_def air_density_def radians_def
        constants_defs)
  have "compute_drag (params (sync_params_from_state (init p_level 0.1))) = Inr 765.625"
    by (simp add: sync_init) (simp add: init_def compute_drag_p_level)
  then have "step (init p_level 0.1) =
      ((sync_params_from_state (init p_level 0.1))
         \<lparr>state := step_state (init p_level 0.1) 765.625\<rparr>,
       Inr (step_state (init p_level 0.1) 765.625))"
    using m by (rule step_returns)
  moreover have "step_state (init p_level 0.1) 765.625 = documented_step p_level 0.1"
    using step_state_init [of p_level "0.1"] d by simp
  ultimately have r: "snd (step (init p_level 0.1)) = Inr (documented_step p_level 0.1)"
    by simp
  have v: "airspeed_m_s (documented_step p_level 0.1) = 50.4234375"
    by (simp add: documented_step_def d compute_thrust_def Let_def)
      (simp add: p_level_def default_params_def)
  have i: "airspeed_m_s (state (init p_level 0.1)) = 50"
    by (simp add: init_def p_level_def default_params_def)
  from params_lag_state [of "init p_level 0.1" "documented_step p_level 0.1"] r v i
  show ?thesis by simp
qed

end
